theory Spec2Isabelle
  imports Main "HOL-Library.Word"
begin

section \<open>The Toeplitz matrix container of toeplitz.hpp\<close>

text \<open>
  The class \<open>toeplitz_matrix<T, A>\<close> keeps an \<open>m \<times> n\<close> matrix whose value depends
  only on \<open>i - j\<close> in a one-dimensional array of diagonal values. This theory embeds
  the class: its three members, its constructors, \<open>resize\<close>, the two element
  accessors, element assignment, \<open>clear\<close>, assignment, \<open>swap\<close> and the index
  cursors \<open>const_iterator1\<close> and \<open>const_iterator2\<close>.

  \<open>size_type\<close> is \<open>A::size_type\<close>, an unsigned machine integer; it is taken at 64
  bits, so \<open>+\<close> and \<open>-\<close> wrap around as they do in the source. The checks
  \<open>BOOST_UBLAS_CHECK (c, e)\<close> are modelled as in a checked build: when \<open>c\<close> is false
  they raise \<open>e\<close>.
\<close>

subsection \<open>Sizes and errors\<close>

type_synonym size_type = "64 word"

datatype error = bad_index | external_logic | bad_alloc | out_of_bounds_write

subsection \<open>The storage array\<close>

text \<open>
  Modelled from the spec: the storage array type \<open>A\<close> (\<open>unbounded_array<T>\<close>) is not
  part of toeplitz.hpp. It is a sequence owned by value: constructing it with a size
  gives that many default (zero) elements, resizing without preservation does the
  same, and indexing is checked against the size and raises \<open>bad_index\<close>.

  Constructing and resizing allocate. A request for \<open>2 ^ 64 - 1\<close> elements, the
  largest \<open>size_type\<close> value, is more than any allocator serves (it exceeds
  \<open>max_size ()\<close> for elements of two bytes or more, and it is the whole address
  space for single bytes): it raises \<open>bad_alloc\<close>. Whether a smaller request is
  served depends on the memory of the machine; the model serves it.
\<close>

definition array_new :: "size_type \<Rightarrow> error + ('a::zero) list" where
  "array_new n = (if n = - 1 then Inl bad_alloc else Inr (replicate (unat n) 0))"

definition array_resize :: "'a list \<Rightarrow> size_type \<Rightarrow> error + ('a::zero) list" where
  "array_resize xs n = (if n = - 1 then Inl bad_alloc else Inr (replicate (unat n) 0))"

definition array_size :: "'a list \<Rightarrow> size_type" where
  "array_size xs = of_nat (length xs)"

definition array_get :: "'a list \<Rightarrow> size_type \<Rightarrow> error + 'a" where
  "array_get xs k = (if unat k < length xs then Inr (xs ! unat k) else Inl bad_index)"

definition array_set :: "'a list \<Rightarrow> size_type \<Rightarrow> 'a \<Rightarrow> error + 'a list" where
  "array_set xs k v = (if unat k < length xs then Inr (xs[unat k := v]) else Inl bad_index)"

text \<open>
  \<open>std::copy (first, last, out)\<close> with \<open>out = dst.begin () + pos\<close>: the elements of the
  source range overwrite \<open>dst\<close> from position \<open>pos\<close> on. Writing past the end of
  \<open>dst\<close> is undefined in C++; the model reports it as \<open>out_of_bounds_write\<close>.
\<close>

definition std_copy :: "'a list \<Rightarrow> 'a list \<Rightarrow> nat \<Rightarrow> error + 'a list" where
  "std_copy src dst pos =
     (if pos + length src \<le> length dst
      then Inr (take pos dst @ src @ drop (pos + length src) dst)
      else Inl out_of_bounds_write)"

subsection \<open>The class\<close>

record 'a toeplitz_matrix =
  data :: "'a list"
  size1 :: size_type
  size2 :: size_type


definition toeplitz_matrix_dims :: "size_type \<Rightarrow> size_type \<Rightarrow> error + ('a::zero) toeplitz_matrix" where
  "toeplitz_matrix_dims s1 s2 =
     (case array_new (s1 + s2 - 1) of
        Inl e \<Rightarrow> Inl e
      | Inr d \<Rightarrow> Inr \<lparr>data = d, size1 = s1, size2 = s2\<rparr>)"

definition toeplitz_matrix_data :: "size_type \<Rightarrow> size_type \<Rightarrow> 'a list \<Rightarrow> 'a toeplitz_matrix" where
  "toeplitz_matrix_data s1 s2 d = \<lparr>data = d, size1 = s1, size2 = s2\<rparr>"

text \<open>
  The constructor from the first row and the first column. The member initialisers
  run first: the store is allocated with \<open>row.size () + column.size () - 1\<close>
  elements, and an exception of that allocation ends the construction before the
  body is entered. Then come the three checks of the body, then the two copies. An
  exception leaves no object, so the result is either an error or the matrix.
\<close>

definition toeplitz_matrix_row_column :: "('a::zero) list \<Rightarrow> 'a list \<Rightarrow> error + 'a toeplitz_matrix" where
  "toeplitz_matrix_row_column row column =
     (case array_new (array_size row + array_size column - 1) of
        Inl e \<Rightarrow> Inl e
      | Inr d \<Rightarrow>
          (let m = \<lparr>data = d, size1 = array_size column, size2 = array_size row\<rparr>
           in if array_size row = 0 then Inl external_logic
              else if array_size column = 0 then Inl external_logic
              else if \<not> (row ! 0 = column ! 0) then Inl external_logic
              else (case std_copy (rev column) (data m) 0 of
                      Inl e \<Rightarrow> Inl e
                    | Inr d1 \<Rightarrow>
                        (case std_copy (drop 1 row) d1 (unat (array_size column)) of
                           Inl e \<Rightarrow> Inl e
                         | Inr d2 \<Rightarrow> Inr (m\<lparr>data := d2\<rparr>)))))"

text \<open>
  \<open>resize\<close> and the other mutators return the exception raised, if any, together
  with the state of the object after the call. Without preservation \<open>resize\<close>
  assigns the two dimensions first and resizes the store last, so an exception of
  that allocation leaves the new dimensions with the old store.
\<close>

definition resize :: "('a::zero) toeplitz_matrix \<Rightarrow> size_type \<Rightarrow> size_type \<Rightarrow> bool
    \<Rightarrow> error option \<times> 'a toeplitz_matrix" where
  "resize m s1 s2 preserve =
     (if preserve then
        (if \<not> (s1 + s2 = size1 m + size2 m) then (Some external_logic, m)
         else (None, m\<lparr>size1 := s1, size2 := s2\<rparr>))
      else (let m' = m\<lparr>size1 := s1, size2 := s2\<rparr>
            in case array_resize (data m') (s1 + s2 - 1) of
                 Inl e \<Rightarrow> (Some e, m')
               | Inr d \<Rightarrow> (None, m'\<lparr>data := d\<rparr>)))"

text \<open>
  Element access. The two branches of \<open>operator ()\<close> are kept apart as
  \<open>offset_ge\<close> (taken when \<open>i >= j\<close>) and \<open>offset_lt\<close> (taken otherwise).
\<close>

definition offset_ge :: "size_type \<Rightarrow> size_type \<Rightarrow> size_type \<Rightarrow> size_type" where
  "offset_ge s1 i j = s1 - 1 - i + j"

definition offset_lt :: "size_type \<Rightarrow> size_type \<Rightarrow> size_type \<Rightarrow> size_type" where
  "offset_lt s1 i j = s1 + j - i - 1"

definition offset :: "size_type \<Rightarrow> size_type \<Rightarrow> size_type \<Rightarrow> size_type" where
  "offset s1 i j = (if i \<ge> j then offset_ge s1 i j else offset_lt s1 i j)"

definition get :: "'a toeplitz_matrix \<Rightarrow> size_type \<Rightarrow> size_type \<Rightarrow> error + 'a" where
  "get m i j =
     (if \<not> i < size1 m then Inl bad_index
      else if \<not> j < size2 m then Inl bad_index
      else array_get (data m) (offset (size1 m) i j))"

definition insert_element :: "'a toeplitz_matrix \<Rightarrow> size_type \<Rightarrow> size_type \<Rightarrow> 'a
    \<Rightarrow> error option \<times> 'a toeplitz_matrix" where
  "insert_element m i j t =
     (if \<not> i < size1 m then (Some bad_index, m)
      else if \<not> j < size2 m then (Some bad_index, m)
      else (case array_set (data m) (offset (size1 m) i j) t of
              Inl e \<Rightarrow> (Some e, m)
            | Inr d \<Rightarrow> (None, m\<lparr>data := d\<rparr>)))"



subsection \<open>Assignment and swap\<close>

text \<open>
  \<open>operator =\<close> and \<open>swap\<close> work on two objects that may be the same one, so they
  are modelled on a memory of objects: an address is a natural number and the
  memory gives the object at each address. Every object holds its array by value (the
  member \<open>A data_\<close>); the array's own assignment copies the elements and its own
  \<open>swap\<close> exchanges the contents of the two arrays.
\<close>

type_synonym 'a memory = "nat \<Rightarrow> 'a toeplitz_matrix"

definition assign :: "'a memory \<Rightarrow> nat \<Rightarrow> nat \<Rightarrow> 'a memory" where
  "assign h this m =
     (let h1 = h(this := (h this)\<lparr>size1 := size1 (h m)\<rparr>);
          h2 = h1(this := (h1 this)\<lparr>size2 := size2 (h1 m)\<rparr>);
          h3 = h2(this := (h2 this)\<lparr>data := data (h2 m)\<rparr>)
      in h3)"

definition swap_size1 :: "'a memory \<Rightarrow> nat \<Rightarrow> nat \<Rightarrow> 'a memory" where
  "swap_size1 h a b =
     (let x = size1 (h a); y = size1 (h b);
          h1 = h(a := (h a)\<lparr>size1 := y\<rparr>)
      in h1(b := (h1 b)\<lparr>size1 := x\<rparr>))"

definition swap_size2 :: "'a memory \<Rightarrow> nat \<Rightarrow> nat \<Rightarrow> 'a memory" where
  "swap_size2 h a b =
     (let x = size2 (h a); y = size2 (h b);
          h1 = h(a := (h a)\<lparr>size2 := y\<rparr>)
      in h1(b := (h1 b)\<lparr>size2 := x\<rparr>))"

definition swap_data :: "'a memory \<Rightarrow> nat \<Rightarrow> nat \<Rightarrow> 'a memory" where
  "swap_data h a b =
     (let x = data (h a); y = data (h b);
          h1 = h(a := (h a)\<lparr>data := y\<rparr>)
      in h1(b := (h1 b)\<lparr>data := x\<rparr>))"

definition swap :: "'a memory \<Rightarrow> nat \<Rightarrow> nat \<Rightarrow> 'a memory" where
  "swap h this m =
     (if this \<noteq> m then swap_data (swap_size2 (swap_size1 h this m) this m) this m
      else h)"

text \<open>The member functions called on the object at an address of the memory.\<close>

definition get_at :: "'a memory \<Rightarrow> nat \<Rightarrow> size_type \<Rightarrow> size_type \<Rightarrow> error + 'a" where
  "get_at h p i j = get (h p) i j"

definition insert_element_at :: "'a memory \<Rightarrow> nat \<Rightarrow> size_type \<Rightarrow> size_type \<Rightarrow> 'a
    \<Rightarrow> error option \<times> 'a memory" where
  "insert_element_at h p i j t =
     (case insert_element (h p) i j t of (e, m') \<Rightarrow> (e, h(p := m')))"

subsection \<open>The index cursors\<close>

text \<open>
  \<open>const_iterator1\<close> and \<open>const_iterator2\<close> (and their mutable twins, which have
  the same members and the same arithmetic) hold a reference to their matrix and
  the two indices \<open>it1_\<close> and \<open>it2_\<close>. Both are the record \<open>cursor\<close>; the
  operations of \<open>const_iterator1\<close> carry the suffix 1, those of \<open>const_iterator2\<close>
  the suffix 2.
\<close>

record cursor =
  container :: nat
  index1 :: size_type
  index2 :: size_type

definition begin1 :: "nat \<Rightarrow> cursor" where
  "begin1 this = \<lparr>container = this, index1 = 0, index2 = 0\<rparr>"

definition end1 :: "'a memory \<Rightarrow> nat \<Rightarrow> cursor" where
  "end1 h this = \<lparr>container = this, index1 = size1 (h this), index2 = 0\<rparr>"

definition begin2 :: "nat \<Rightarrow> cursor" where
  "begin2 this = \<lparr>container = this, index1 = 0, index2 = 0\<rparr>"

definition end2 :: "'a memory \<Rightarrow> nat \<Rightarrow> cursor" where
  "end2 h this = \<lparr>container = this, index1 = 0, index2 = size2 (h this)\<rparr>"

text \<open>\<open>operator ++\<close>, \<open>operator *\<close> and \<open>operator ==\<close> of the two classes.\<close>

definition incr1 :: "cursor \<Rightarrow> cursor" where
  "incr1 it = it\<lparr>index1 := index1 it + 1\<rparr>"

definition incr2 :: "cursor \<Rightarrow> cursor" where
  "incr2 it = it\<lparr>index2 := index2 it + 1\<rparr>"

definition deref :: "'a memory \<Rightarrow> cursor \<Rightarrow> error + 'a" where
  "deref h it = get (h (container it)) (index1 it) (index2 it)"

definition eq1 :: "cursor \<Rightarrow> cursor \<Rightarrow> error + bool" where
  "eq1 a b =
     (if \<not> container a = container b then Inl external_logic
      else if \<not> index2 a = index2 b then Inl external_logic
      else Inr (index1 a = index1 b))"

definition eq2 :: "cursor \<Rightarrow> cursor \<Rightarrow> error + bool" where
  "eq2 a b =
     (if \<not> container a = container b then Inl external_logic
      else if \<not> index1 a = index1 b then Inl external_logic
      else Inr (index2 a = index2 b))"

text \<open>
  \<open>begin ()\<close> and \<open>end ()\<close> of a \<open>const_iterator1\<close> give the \<open>const_iterator2\<close>
  pair of its row, and the other way round.
\<close>

definition begin_of1 :: "cursor \<Rightarrow> cursor" where
  "begin_of1 it = \<lparr>container = container it, index1 = index1 it, index2 = 0\<rparr>"

definition end_of1 :: "'a memory \<Rightarrow> cursor \<Rightarrow> cursor" where
  "end_of1 h it =
     \<lparr>container = container it, index1 = index1 it, index2 = size2 (h (container it))\<rparr>"

definition begin_of2 :: "cursor \<Rightarrow> cursor" where
  "begin_of2 it = \<lparr>container = container it, index1 = 0, index2 = index2 it\<rparr>"

definition end_of2 :: "'a memory \<Rightarrow> cursor \<Rightarrow> cursor" where
  "end_of2 h it =
     \<lparr>container = container it, index1 = size1 (h (container it)), index2 = index2 it\<rparr>"

text \<open>
  The sequence a pair of cursors delimits is the one the loop
  \<open>for (it = first; !(it == stop); ++ it)\<close> visits. The loop ends for every pair:
  the distance \<open>stop - it\<close> in \<open>size_type\<close> goes down by one in each round.
\<close>

function range1 :: "cursor \<Rightarrow> cursor \<Rightarrow> error + cursor list" where
  "range1 it stop =
     (case eq1 it stop of
        Inl e \<Rightarrow> Inl e
      | Inr b \<Rightarrow>
          if b then Inr []
          else (case range1 (incr1 it) stop of
                  Inl e \<Rightarrow> Inl e
                | Inr its \<Rightarrow> Inr (it # its)))"
  by pat_completeness auto
termination
proof (relation "measure (\<lambda>(it, stop). unat (index1 stop - index1 it))")
  show "wf (measure (\<lambda>(it, stop). unat (index1 stop - index1 it)))"
    by simp
next
  fix it stop :: cursor and b
  assume "eq1 it stop = Inr b" "\<not> b"
  then have ne: "index1 stop - index1 it \<noteq> 0"
    by (auto simp: eq1_def split: if_splits)
  have e: "index1 stop - (index1 it + 1) = index1 stop - index1 it - 1"
    by simp
  have "unat (index1 stop - index1 it - 1) = unat (index1 stop - index1 it) - 1"
    using ne by (rule unat_minus_one)
  then have "unat (index1 stop - (index1 it + 1)) = unat (index1 stop - index1 it) - 1"
    by (simp only: e)
  moreover have "0 < unat (index1 stop - index1 it)"
    using ne by (simp add: unat_gt_0)
  ultimately show "((incr1 it, stop), (it, stop))
      \<in> measure (\<lambda>(it, stop). unat (index1 stop - index1 it))"
    by (simp add: incr1_def)
qed

function range2 :: "cursor \<Rightarrow> cursor \<Rightarrow> error + cursor list" where
  "range2 it stop =
     (case eq2 it stop of
        Inl e \<Rightarrow> Inl e
      | Inr b \<Rightarrow>
          if b then Inr []
          else (case range2 (incr2 it) stop of
                  Inl e \<Rightarrow> Inl e
                | Inr its \<Rightarrow> Inr (it # its)))"
  by pat_completeness auto
termination
proof (relation "measure (\<lambda>(it, stop). unat (index2 stop - index2 it))")
  show "wf (measure (\<lambda>(it, stop). unat (index2 stop - index2 it)))"
    by simp
next
  fix it stop :: cursor and b
  assume "eq2 it stop = Inr b" "\<not> b"
  then have ne: "index2 stop - index2 it \<noteq> 0"
    by (auto simp: eq2_def split: if_splits)
  have e: "index2 stop - (index2 it + 1) = index2 stop - index2 it - 1"
    by simp
  have "unat (index2 stop - index2 it - 1) = unat (index2 stop - index2 it) - 1"
    using ne by (rule unat_minus_one)
  then have "unat (index2 stop - (index2 it + 1)) = unat (index2 stop - index2 it) - 1"
    by (simp only: e)
  moreover have "0 < unat (index2 stop - index2 it)"
    using ne by (simp add: unat_gt_0)
  ultimately show "((incr2 it, stop), (it, stop))
      \<in> measure (\<lambda>(it, stop). unat (index2 stop - index2 it))"
    by (simp add: incr2_def)
qed

declare range1.simps [simp del] range2.simps [simp del]

subsection \<open>The invariant of the data model\<close>

text \<open>
  Following the spec's words: the store holds exactly \<open>rows + cols - 1\<close> values
  whenever \<open>rows > 0\<close> and \<open>cols > 0\<close>, and a zero-sized matrix holds an empty
  store. The length of the store is the array's \<open>size ()\<close>, a \<open>size_type\<close> value,
  hence below \<open>2 ^ 64\<close>.
\<close>

definition store_invariant :: "'a toeplitz_matrix \<Rightarrow> bool" where
  "store_invariant m \<longleftrightarrow>
     length (data m) < 2 ^ 64 \<and>
     (if 0 < size1 m \<and> 0 < size2 m
      then length (data m) = unat (size1 m) + unat (size2 m) - 1
      else data m = [])"

section \<open>The index mapping\<close>

lemma offset_eq: "offset s1 i j = s1 - 1 - i + j"
  by (simp add: offset_def offset_ge_def offset_lt_def)

lemma unat_offset:
  assumes "i < s1" "j < s2" "unat s1 + unat s2 - 1 < 2 ^ 64"
  shows "unat (offset s1 i j) = unat s1 - 1 - unat i + unat j"
proof -
  have a: "unat (s1 - 1 - i) = unat s1 - 1 - unat i"
    using assms by unat_arith
  have b: "unat j < unat s2" "unat i < unat s1"
    using assms by (simp_all add: word_less_nat_alt)
  have "unat (s1 - 1 - i + j) = unat (s1 - 1 - i) + unat j"
    using a b assms(3) by (intro unat_add_lem[THEN iffD1]) simp
  then show ?thesis by (simp add: offset_eq a)
qed

lemma unat_diag_count:
  assumes "0 < (s1::size_type)" "0 < (s2::size_type)" "unat s1 + unat s2 - 1 < 2 ^ 64"
  shows "unat (s1 + s2 - 1) = unat s1 + unat s2 - 1"
proof -
  have p: "0 < unat s1" "0 < unat s2"
    using assms by (simp_all add: word_less_nat_alt)
  have e: "s1 + s2 - 1 = s1 + (s2 - 1)" by simp
  have u: "unat (s2 - 1) = unat s2 - 1"
    using assms(2) by (simp add: unat_minus_one)
  have "unat (s1 + (s2 - 1)) = unat s1 + unat (s2 - 1)"
    using p assms(3) u by (intro unat_add_lem[THEN iffD1]) simp
  then have "unat (s1 + s2 - 1) = unat s1 + (unat s2 - 1)"
    unfolding e u .
  then show ?thesis using p by simp
qed

lemma offset_in_range:
  assumes "i < s1" "j < s2" "unat s1 + unat s2 - 1 < 2 ^ 64"
  shows "unat (offset s1 i j) < unat s1 + unat s2 - 1"
proof -
  have "unat j < unat s2" "unat i < unat s1"
    using assms by (simp_all add: word_less_nat_alt)
  then show ?thesis using unat_offset[OF assms] by simp
qed

lemma offset_onto:
  assumes "0 < s1" "0 < s2" "unat k < unat s1 + unat s2 - 1"
  shows "\<exists>i j. i < s1 \<and> j < s2 \<and> offset s1 i j = k"
proof -
  have u1: "unat (s1 - 1) = unat s1 - 1"
    using assms(1) by (simp add: unat_minus_one)
  have p: "0 < unat s1"
    using assms(1) by (simp add: word_less_nat_alt)
  show ?thesis
  proof (cases "unat k < unat s1")
    case True
    then have "k \<le> s1 - 1" using u1 by (simp add: word_le_nat_alt)
    then have "unat (s1 - 1 - k) = unat (s1 - 1) - unat k" by (rule unat_sub)
    then have "s1 - 1 - k < s1" using u1 p by (simp add: word_less_nat_alt)
    moreover have "offset s1 (s1 - 1 - k) 0 = k" by (simp add: offset_eq)
    ultimately show ?thesis using assms(2) by blast
  next
    case False
    then have "s1 - 1 \<le> k" using u1 by (simp add: word_le_nat_alt)
    then have "unat (k - (s1 - 1)) = unat k - unat (s1 - 1)" by (rule unat_sub)
    then have "k - (s1 - 1) < s2" using u1 p False assms(3) by (simp add: word_less_nat_alt)
    moreover have "offset s1 0 (k - (s1 - 1)) = k" by (simp add: offset_eq)
    ultimately show ?thesis using assms(1) by blast
  qed
qed

lemma offset_same_diagonal:
  assumes "i < s1" "j < s2" "i' < s1" "j' < s2" "unat s1 + unat s2 - 1 < 2 ^ 64"
  shows "offset s1 i j = offset s1 i' j' \<longleftrightarrow>
         int (unat i) - int (unat j) = int (unat i') - int (unat j')"
proof -
  have b: "unat i < unat s1" "unat i' < unat s1"
    using assms by (simp_all add: word_less_nat_alt)
  have "offset s1 i j = offset s1 i' j' \<longleftrightarrow> unat (offset s1 i j) = unat (offset s1 i' j')"
    by (simp add: word_unat_eq_iff)
  also have "\<dots> \<longleftrightarrow> unat s1 - 1 - unat i + unat j = unat s1 - 1 - unat i' + unat j'"
    using unat_offset[OF assms(1,2,5)] unat_offset[OF assms(3,4,5)] by simp
  also have "\<dots> \<longleftrightarrow> int (unat i) - int (unat j) = int (unat i') - int (unat j')"
    using b by linarith
  finally show ?thesis .
qed

lemma invariant_count:
  assumes "store_invariant m" "0 < size1 m" "0 < size2 m"
  shows "length (data m) = unat (size1 m) + unat (size2 m) - 1"
    and "unat (size1 m) + unat (size2 m) - 1 < 2 ^ 64"
  using assms by (simp_all add: store_invariant_def)

text \<open>
  C1, as the code has it. For every matrix and all indices both branches of the
  index computation give \<open>rows - 1 - i + j\<close> in \<open>size_type\<close>. When \<open>rows > 0\<close>,
  \<open>cols > 0\<close> and \<open>rows + cols - 1\<close> is a \<open>size_type\<close> value (the sum does not wrap
  around), then for all \<open>i < rows\<close> and \<open>j < cols\<close> this value is computed without
  wrap-around and is below \<open>rows + cols - 1\<close>; every slot below \<open>rows + cols - 1\<close> is
  the offset of a valid pair; and two valid pairs have the same offset exactly
  when they lie on the same diagonal (\<open>i - j = i' - j'\<close>). So the offset is a
  bijection between the diagonals and the slots \<open>0, ..., rows + cols - 2\<close>.
\<close>

theorem offset_diagonal_bijection:
  "(offset_ge (size1 m) i j = size1 m - 1 - i + j \<and>
    offset_lt (size1 m) i j = size1 m - 1 - i + j \<and>
    offset (size1 m) i j = size1 m - 1 - i + j) \<and>
   (0 < size1 m \<and> 0 < size2 m \<and> unat (size1 m) + unat (size2 m) - 1 < 2 ^ 64 \<longrightarrow>
      (\<forall>i j. i < size1 m \<and> j < size2 m \<longrightarrow>
         int (unat (offset (size1 m) i j)) =
           int (unat (size1 m)) - 1 - int (unat i) + int (unat j) \<and>
         offset (size1 m) i j < size1 m + size2 m - 1) \<and>
      (\<forall>k. k < size1 m + size2 m - 1 \<longrightarrow>
         (\<exists>i j. i < size1 m \<and> j < size2 m \<and> offset (size1 m) i j = k)) \<and>
      (\<forall>i j i' j'. i < size1 m \<and> j < size2 m \<and> i' < size1 m \<and> j' < size2 m \<longrightarrow>
         (offset (size1 m) i j = offset (size1 m) i' j' \<longleftrightarrow>
          int (unat i) - int (unat j) = int (unat i') - int (unat j'))))"
proof -
  have branches: "offset_ge (size1 m) i j = size1 m - 1 - i + j \<and>
    offset_lt (size1 m) i j = size1 m - 1 - i + j \<and>
    offset (size1 m) i j = size1 m - 1 - i + j"
    by (simp add: offset_eq offset_ge_def offset_lt_def)
  have rest: "(\<forall>i j. i < size1 m \<and> j < size2 m \<longrightarrow>
         int (unat (offset (size1 m) i j)) =
           int (unat (size1 m)) - 1 - int (unat i) + int (unat j) \<and>
         offset (size1 m) i j < size1 m + size2 m - 1) \<and>
      (\<forall>k. k < size1 m + size2 m - 1 \<longrightarrow>
         (\<exists>i j. i < size1 m \<and> j < size2 m \<and> offset (size1 m) i j = k)) \<and>
      (\<forall>i j i' j'. i < size1 m \<and> j < size2 m \<and> i' < size1 m \<and> j' < size2 m \<longrightarrow>
         (offset (size1 m) i j = offset (size1 m) i' j' \<longleftrightarrow>
          int (unat i) - int (unat j) = int (unat i') - int (unat j')))"
    if p: "0 < size1 m" "0 < size2 m" and c: "unat (size1 m) + unat (size2 m) - 1 < 2 ^ 64"
  proof -
    note n = unat_diag_count[OF p c]
    have range: "int (unat (offset (size1 m) i j)) =
              int (unat (size1 m)) - 1 - int (unat i) + int (unat j) \<and>
            offset (size1 m) i j < size1 m + size2 m - 1"
      if v: "i < size1 m" "j < size2 m" for i j
    proof -
      have b: "unat i < unat (size1 m)"
        using v by (simp add: word_less_nat_alt)
      have "int (unat (offset (size1 m) i j)) =
              int (unat (size1 m)) - 1 - int (unat i) + int (unat j)"
        using unat_offset[OF v c] b by linarith
      moreover have "offset (size1 m) i j < size1 m + size2 m - 1"
        using offset_in_range[OF v c] n by (simp add: word_less_nat_alt)
      ultimately show ?thesis by simp
    qed
    have onto: "\<exists>i j. i < size1 m \<and> j < size2 m \<and> offset (size1 m) i j = k"
      if "k < size1 m + size2 m - 1" for k
    proof -
      have "unat k < unat (size1 m) + unat (size2 m) - 1"
        using that n by (simp add: word_less_nat_alt)
      then show ?thesis by (rule offset_onto[OF p])
    qed
    have diag: "offset (size1 m) i j = offset (size1 m) i' j' \<longleftrightarrow>
               int (unat i) - int (unat j) = int (unat i') - int (unat j')"
      if "i < size1 m \<and> j < size2 m \<and> i' < size1 m \<and> j' < size2 m" for i j i' j'
      using that offset_same_diagonal[of i "size1 m" j "size2 m" i' j'] c by blast
    show ?thesis using range onto diag by blast
  qed
  show ?thesis using branches rest by blast
qed

theorem offset_diagonal_bijection_witness:
  "offset_ge 2 1 2 = (2 :: size_type) \<and> offset_lt 2 1 2 = (2 :: size_type) \<and>
   offset 2 1 2 < (2 + 3 - 1 :: size_type) \<and>
   (\<exists>i j. i < (2 :: size_type) \<and> j < (3 :: size_type) \<and> offset 2 i j = 3)"
proof -
  let ?M = "toeplitz_matrix_data 2 3 [40, 10, 20, 30 :: int]"
  have s: "size1 ?M = 2" "size2 ?M = 3"
    by (simp_all add: toeplitz_matrix_data_def)
  have h: "0 < size1 ?M \<and> 0 < size2 ?M \<and> unat (size1 ?M) + unat (size2 ?M) - 1 < 2 ^ 64"
    by (simp add: s)
  note t = offset_diagonal_bijection[of ?M 1 2]
  have b: "offset_ge 2 1 2 = (2 :: size_type) \<and> offset_lt 2 1 2 = (2 :: size_type)"
    using t unfolding s by simp
  have v: "(1 :: size_type) < 2 \<and> (2 :: size_type) < 3" by simp
  have a: "offset 2 1 2 < (2 + 3 - 1 :: size_type)"
    using t h v unfolding s by blast
  have "(3 :: size_type) < 2 + 3 - 1" by simp
  then have "\<exists>i j. i < (2 :: size_type) \<and> j < (3 :: size_type) \<and> offset 2 i j = 3"
    using t h unfolding s by blast
  then show ?thesis using a b by blast
qed

text \<open>
  The claim C1 as the spec states it fails where \<open>rows + cols - 1\<close> wraps around.
  The dimensions-only constructor builds the matrix with \<open>2 ^ 63 + 1\<close> rows and
  \<open>2 ^ 63 + 1\<close> columns (its store has \<open>2 ^ 64 + 1\<close> values modulo \<open>2 ^ 64\<close>, that is
  one). There the valid pairs \<open>(0, 2 ^ 63)\<close> and \<open>(2 ^ 63, 0)\<close>, on different
  diagonals, have the same offset 0, and the offset \<open>2 ^ 63\<close> of \<open>(0, 0)\<close> is not
  below \<open>rows + cols - 1 = 1\<close>.
\<close>

theorem offset_diagonal_bijection_counterexample:
  "toeplitz_matrix_dims 9223372036854775809 9223372036854775809 =
     Inr \<lparr>data = [0 :: int], size1 = 9223372036854775809, size2 = 9223372036854775809\<rparr> \<and>
   (0 :: size_type) < 9223372036854775809 \<and>
   (9223372036854775808 :: size_type) < 9223372036854775809 \<and>
   offset 9223372036854775809 0 9223372036854775808 = 0 \<and>
   offset 9223372036854775809 9223372036854775808 0 = 0 \<and>
   offset 9223372036854775809 0 0 = 9223372036854775808 \<and>
   \<not> offset 9223372036854775809 0 0 < 9223372036854775809 + 9223372036854775809 - 1"
  by (simp add: toeplitz_matrix_dims_def array_new_def offset_eq)

section \<open>Element access and assignment\<close>

lemma store_fits_no_wrap:
  assumes "unat (size1 m) + unat (size2 m) - 1 \<le> length (data m)" "length (data m) < 2 ^ 64"
  shows "unat (size1 m) + unat (size2 m) - 1 < 2 ^ 64"
  using assms by linarith

lemma get_in_range:
  assumes "unat (size1 m) + unat (size2 m) - 1 \<le> length (data m)" "length (data m) < 2 ^ 64"
    "i < size1 m" "j < size2 m"
  shows "get m i j = Inr (data m ! unat (offset (size1 m) i j))"
proof -
  note c = store_fits_no_wrap[OF assms(1,2)]
  have "unat (offset (size1 m) i j) < length (data m)"
    using offset_in_range[OF assms(3,4) c] assms(1) by linarith
  then show ?thesis using assms(3,4) by (simp add: get_def array_get_def)
qed

lemma insert_element_in_range:
  assumes "unat (size1 m) + unat (size2 m) - 1 \<le> length (data m)" "length (data m) < 2 ^ 64"
    "i < size1 m" "j < size2 m"
  shows "insert_element m i j v =
           (None, m\<lparr>data := (data m)[unat (offset (size1 m) i j) := v]\<rparr>)"
proof -
  note c = store_fits_no_wrap[OF assms(1,2)]
  have "unat (offset (size1 m) i j) < length (data m)"
    using offset_in_range[OF assms(3,4) c] assms(1) by linarith
  then show ?thesis using assms(3,4) by (simp add: insert_element_def array_set_def)
qed

lemma invariant_store_fits:
  assumes "store_invariant m" "i < size1 m" "j < size2 m"
  shows "unat (size1 m) + unat (size2 m) - 1 \<le> length (data m)" "length (data m) < 2 ^ 64"
proof -
  have "0 < size1 m" "0 < size2 m"
    using assms(2,3) by (auto simp: word_less_nat_alt word_gt_0 unat_gt_0)
  then show "unat (size1 m) + unat (size2 m) - 1 \<le> length (data m)"
    and "length (data m) < 2 ^ 64"
    using invariant_count[OF assms(1)] by simp_all
qed

text \<open>
  C2, as the code has it. In a matrix whose store holds at least \<open>rows + cols - 1\<close>
  values (the store is an array, so its length is a \<open>size_type\<close> value), as the
  invariant of the data model gives, for every valid pair \<open>i < rows\<close>, \<open>j < cols\<close>
  the element assignment \<open>insert_element (i, j, v)\<close> (the mutable \<open>operator ()\<close>
  followed by the assignment) returns normally, keeps the dimensions, and
  afterwards \<open>get (i', j')\<close> is \<open>v\<close> for every valid pair on the diagonal of
  \<open>(i, j)\<close> and is what it was before for every valid pair on another diagonal.
\<close>

theorem insert_element_sets_diagonal:
  assumes "unat (size1 m) + unat (size2 m) - 1 \<le> length (data m)" "length (data m) < 2 ^ 64"
    "i < size1 m" "j < size2 m"
  shows "\<exists>m'. insert_element m i j v = (None, m') \<and>
           size1 m' = size1 m \<and> size2 m' = size2 m \<and>
           (\<forall>i' j'. i' < size1 m \<and> j' < size2 m \<longrightarrow>
              get m' i' j' =
                (if int (unat i') - int (unat j') = int (unat i) - int (unat j)
                 then Inr v else get m i' j'))"
proof -
  let ?k = "unat (offset (size1 m) i j)"
  let ?m' = "m\<lparr>data := (data m)[?k := v]\<rparr>"
  note c = store_fits_no_wrap[OF assms(1,2)]
  have k: "?k < length (data m)"
    using offset_in_range[OF assms(3,4) c] assms(1) by linarith
  have f': "unat (size1 ?m') + unat (size2 ?m') - 1 \<le> length (data ?m')"
    "length (data ?m') < 2 ^ 64"
    using assms(1,2) by simp_all
  have "get ?m' i' j' =
          (if int (unat i') - int (unat j') = int (unat i) - int (unat j)
           then Inr v else get m i' j')"
    if v: "i' < size1 m" "j' < size2 m" for i' j'
  proof -
    have v': "i' < size1 ?m'" "j' < size2 ?m'" using v by simp_all
    have g': "get ?m' i' j' = Inr ((data m)[?k := v] ! unat (offset (size1 m) i' j'))"
      using get_in_range[OF f' v'] by simp
    have g: "get m i' j' = Inr (data m ! unat (offset (size1 m) i' j'))"
      using get_in_range[OF assms(1,2) v] .
    have d: "offset (size1 m) i' j' = offset (size1 m) i j \<longleftrightarrow>
             int (unat i') - int (unat j') = int (unat i) - int (unat j)"
      using offset_same_diagonal[OF v assms(3,4) c] .
    show ?thesis
    proof (cases "int (unat i') - int (unat j') = int (unat i) - int (unat j)")
      case True
      then have "offset (size1 m) i' j' = offset (size1 m) i j" using d by simp
      then show ?thesis using g' k True by simp
    next
      case False
      then have "offset (size1 m) i' j' \<noteq> offset (size1 m) i j" using d by simp
      then have "unat (offset (size1 m) i' j') \<noteq> ?k" by (simp add: word_unat_eq_iff)
      then show ?thesis using g' g False by simp
    qed
  qed
  then show ?thesis
    using insert_element_in_range[OF assms, of v] by simp
qed

theorem insert_element_sets_diagonal_witness:
  "\<exists>m'. insert_element (toeplitz_matrix_data 2 2 [1, 2, 3 :: int]) 0 0 9 = (None, m') \<and>
      get m' 1 1 = Inr 9 \<and> get m' 0 0 = Inr 9 \<and>
      get m' 0 1 = Inr 3 \<and> get m' 1 0 = Inr 1"
proof -
  let ?M = "toeplitz_matrix_data 2 2 [1, 2, 3 :: int]"
  have s: "size1 ?M = 2" "size2 ?M = 2"
    by (simp_all add: toeplitz_matrix_data_def)
  have h1: "unat (size1 ?M) + unat (size2 ?M) - 1 \<le> length (data ?M)"
    and h2: "length (data ?M) < 2 ^ 64"
    by (simp_all add: toeplitz_matrix_data_def)
  have h3: "0 < size1 ?M" and h4: "0 < size2 ?M"
    by (simp_all add: s)
  obtain m' where m': "insert_element ?M 0 0 9 = (None, m')"
    and g: "\<forall>i' j'. i' < size1 ?M \<and> j' < size2 ?M \<longrightarrow>
              get m' i' j' =
                (if int (unat i') - int (unat j') = int (unat (0 :: size_type)) - int (unat (0 :: size_type))
                 then Inr 9 else get ?M i' j')"
    using insert_element_sets_diagonal[OF h1 h2 h3 h4, of 9] by blast
  have old: "get ?M 0 1 = Inr 3" "get ?M 1 0 = Inr 1"
    by (simp_all add: get_def array_get_def offset_eq toeplitz_matrix_data_def)
  have "get m' 1 1 = Inr 9" using g[rule_format, of 1 1] s by simp
  moreover have "get m' 0 0 = Inr 9" using g[rule_format, of 0 0] s by simp
  moreover have "get m' 0 1 = Inr 3" using g[rule_format, of 0 1] s old by simp
  moreover have "get m' 1 0 = Inr 1" using g[rule_format, of 1 0] s old by simp
  ultimately show ?thesis using m' by blast
qed

text \<open>
  The claim C2 as the spec states it, for every matrix, fails. In the matrix the
  constructor from dimensions and data builds from \<open>(2, 2)\<close> and no data, and in
  the matrix the dimensions-only constructor builds from \<open>(2 ^ 63, 2 ^ 63 + 1)\<close>
  (whose store length wraps around to 0), the assignment at the valid pair
  \<open>(0, 0)\<close> raises \<open>bad_index\<close>. In the matrix with \<open>2 ^ 64 - 1\<close> rows and 6 columns
  over the four values \<open>[1, 2, 3, 4]\<close>, which \<open>resize\<close> with preservation makes of a
  2 by 3 matrix, the assignment at \<open>(0, 2)\<close> returns normally and changes the element
  at \<open>(2 ^ 64 - 2, 0)\<close>, on another diagonal.
\<close>

theorem insert_element_sets_diagonal_counterexample:
  "insert_element (toeplitz_matrix_data 2 2 ([] :: int list)) 0 0 9 =
     (Some bad_index, toeplitz_matrix_data 2 2 []) \<and>
   toeplitz_matrix_dims 9223372036854775808 9223372036854775809 =
     Inr \<lparr>data = ([] :: int list), size1 = 9223372036854775808, size2 = 9223372036854775809\<rparr> \<and>
   insert_element
     \<lparr>data = ([] :: int list), size1 = 9223372036854775808, size2 = 9223372036854775809\<rparr> 0 0 9 =
     (Some bad_index,
      \<lparr>data = [], size1 = 9223372036854775808, size2 = 9223372036854775809\<rparr>) \<and>
   resize (toeplitz_matrix_data 2 3 [1, 2, 3, 4 :: int]) 18446744073709551615 6 True =
     (None, \<lparr>data = [1, 2, 3, 4], size1 = 18446744073709551615, size2 = 6\<rparr>) \<and>
   get \<lparr>data = [1, 2, 3, 4 :: int], size1 = 18446744073709551615, size2 = 6\<rparr>
     18446744073709551614 0 = Inr 1 \<and>
   insert_element \<lparr>data = [1, 2, 3, 4 :: int], size1 = 18446744073709551615, size2 = 6\<rparr> 0 2 9 =
     (None, \<lparr>data = [9, 2, 3, 4], size1 = 18446744073709551615, size2 = 6\<rparr>) \<and>
   get \<lparr>data = [9, 2, 3, 4 :: int], size1 = 18446744073709551615, size2 = 6\<rparr>
     18446744073709551614 0 = Inr 9"
  by (simp add: insert_element_def get_def array_set_def array_get_def offset_eq
      toeplitz_matrix_data_def toeplitz_matrix_dims_def array_new_def resize_def)

section \<open>Construction from the first row and the first column\<close>

lemma unat_array_size: "length xs < 2 ^ 64 \<Longrightarrow> unat (array_size xs) = length xs"
  by (simp add: array_size_def unat_of_nat)

lemma array_size_eq_0: "length xs < 2 ^ 64 \<Longrightarrow> array_size xs = 0 \<longleftrightarrow> xs = []"
  using unat_array_size[of xs] by (auto simp: unat_eq_0[symmetric] simp del: unat_eq_0)

lemma unat_max_size: "unat (- 1 :: size_type) = 2 ^ 64 - 1"
  by (simp add: unsigned_minus_1_eq_mask mask_eq_exp_minus_1)

lemma array_new_served:
  "unat n < 2 ^ 64 - 1 \<Longrightarrow> array_new n = Inr (replicate (unat n) 0)"
  using unat_max_size by (auto simp: array_new_def)

lemma row_column_data:
  assumes "row \<noteq> []" "column \<noteq> []" "row ! 0 = column ! 0"
    "length row + length column < 2 ^ 64"
  shows "toeplitz_matrix_row_column row column =
           Inr \<lparr>data = rev column @ drop 1 row,
                size1 = array_size column, size2 = array_size row\<rparr>"
proof -
  have pr: "0 < length row" "0 < length column"
    using assms(1,2) by simp_all
  have lr: "length row < 2 ^ 64" and lc: "length column < 2 ^ 64"
    and fits: "length row + length column - 1 < 2 ^ 64"
    and served: "length row + length column - 1 < 2 ^ 64 - 1"
    using assms(4) pr by linarith+
  have ur: "unat (array_size row) = length row"
    and uc: "unat (array_size column) = length column"
    using lr lc by (simp_all add: unat_array_size)
  have nz: "array_size row \<noteq> 0" "array_size column \<noteq> 0"
    using assms(1,2) lr lc by (simp_all add: array_size_eq_0)
  then have pos: "0 < array_size row" "0 < array_size column"
    by (simp_all add: word_gt_0)
  have n: "unat (array_size row + array_size column - 1) = length row + length column - 1"
    using unat_diag_count[OF pos] fits ur uc by simp
  have d: "array_new (array_size row + array_size column - 1) =
           Inr (replicate (length row + length column - 1) (0 :: 'a))"
    using array_new_served[of "array_size row + array_size column - 1"] served n by simp
  have le: "length column \<le> length row + length column - 1"
    and df: "length row + length column - 1 - length column = length row - 1"
    using pr by linarith+
  have c1: "std_copy (rev column) (replicate (length row + length column - 1) (0 :: 'a)) 0 =
            Inr (rev column @ replicate (length row - 1) 0)"
    using le df by (simp add: std_copy_def)
  have c2: "std_copy (drop 1 row) (rev column @ replicate (length row - 1) 0) (length column)
            = Inr (rev column @ drop 1 row)"
    by (simp add: std_copy_def)
  show ?thesis
    using nz assms(3) c1 c2 by (simp add: toeplitz_matrix_row_column_def Let_def uc d)
qed

lemma row_column_alloc_fails:
  assumes "length row + length column = 2 ^ 64"
  shows "toeplitz_matrix_row_column row column = Inl bad_alloc"
proof -
  have "array_size row + array_size column = (of_nat (length row + length column) :: size_type)"
    by (simp add: array_size_def)
  also have "\<dots> = 0"
    unfolding assms by simp
  finally show ?thesis
    by (simp add: toeplitz_matrix_row_column_def array_new_def)
qed

lemma row_column_invariant:
  assumes "row \<noteq> []" "column \<noteq> []" "length row + length column - 1 < 2 ^ 64"
  shows "store_invariant \<lparr>data = rev column @ drop 1 row,
                size1 = array_size column, size2 = array_size row\<rparr>"
proof -
  have pr: "0 < length row" "0 < length column"
    using assms(1,2) by simp_all
  have lr: "length row < 2 ^ 64" "0 < length row"
    and lc: "length column < 2 ^ 64" "0 < length column"
    using assms pr by linarith+
  have ur: "unat (array_size row) = length row"
    and uc: "unat (array_size column) = length column"
    using lr lc by (simp_all add: unat_array_size)
  have "length column + length row - 1 = length column + (length row - 1)"
    using lr by linarith
  moreover have "length column + length row - 1 < 2 ^ 64"
    using assms(3) by (simp add: add.commute)
  moreover have "0 < array_size column \<and> 0 < array_size row"
    using lr lc ur uc by (simp add: word_less_nat_alt)
  ultimately show ?thesis by (simp add: store_invariant_def ur uc)
qed

lemma row_column_get:
  assumes "row \<noteq> []" "column \<noteq> []" "length row + length column - 1 < 2 ^ 64"
    "i < length column" "j < length row"
  shows "get \<lparr>data = rev column @ drop 1 row,
                size1 = array_size column, size2 = array_size row\<rparr> (of_nat i) (of_nat j)
         = Inr (if j \<le> i then column ! (i - j) else row ! (j - i))"
proof -
  let ?m = "\<lparr>data = rev column @ drop 1 row,
                size1 = array_size column, size2 = array_size row\<rparr>"
  have lr: "length row < 2 ^ 64" and lc: "length column < 2 ^ 64"
    using assms by linarith+
  have ur: "unat (array_size row) = length row"
    and uc: "unat (array_size column) = length column"
    using lr lc by (simp_all add: unat_array_size)
  have ui: "unat (of_nat i :: size_type) = i" and uj: "unat (of_nat j :: size_type) = j"
    using assms(4,5) lr lc by (simp_all add: unat_of_nat)
  have v: "(of_nat i :: size_type) < size1 ?m" "(of_nat j :: size_type) < size2 ?m"
    using assms(4,5) by (simp_all add: word_less_nat_alt ui uj ur uc)
  have c: "unat (size1 ?m) + unat (size2 ?m) - 1 < 2 ^ 64"
    using assms(3) by (simp add: ur uc add.commute)
  have k: "unat (offset (size1 ?m) (of_nat i) (of_nat j)) = length column - 1 - i + j"
    using unat_offset[OF v c] by (simp add: ui uj uc)
  have g: "get ?m (of_nat i) (of_nat j) = Inr (data ?m ! (length column - 1 - i + j))"
    using get_in_range[OF invariant_store_fits[OF row_column_invariant[OF assms(1,2,3)] v] v] k
    by simp
  let ?k = "length column - 1 - i + j"
  show ?thesis
  proof (cases "j \<le> i")
    case True
    then have lt: "?k < length (rev column)" using assms(4) by simp
    have e: "length column - Suc ?k = i - j"
      using True assms(4) by simp
    have "(rev column @ drop 1 row) ! ?k = rev column ! ?k"
      using lt by (simp only: nth_append if_True)
    also have "\<dots> = column ! (length column - Suc ?k)"
      using lt by (simp only: rev_nth length_rev)
    finally have "(rev column @ drop 1 row) ! ?k = column ! (i - j)"
      by (simp only: e)
    then show ?thesis using g True by simp
  next
    case False
    then have ge: "\<not> ?k < length (rev column)" using assms(4) by simp
    have e: "?k - length (rev column) = j - i - 1"
      using False assms(4) by simp
    have f: "1 + (j - i - 1) = j - i" using False by simp
    have "(rev column @ drop 1 row) ! ?k = drop 1 row ! (?k - length (rev column))"
      using ge by (simp only: nth_append if_False)
    also have "\<dots> = drop 1 row ! (j - i - 1)"
      by (simp only: e)
    also have "\<dots> = row ! (1 + (j - i - 1))"
      using assms(5) False by (intro nth_drop) simp
    finally have "(rev column @ drop 1 row) ! ?k = row ! (j - i)"
      by (simp only: f)
    then show ?thesis using g False by simp
  qed
qed

text \<open>
  C3. For a non-empty row sequence \<open>r\<close> and a non-empty column sequence \<open>c\<close> with
  \<open>r[0] = c[0]\<close> (arrays whose diagonal count \<open>|r| + |c| - 1\<close> is a \<open>size_type\<close>
  value), the constructor returns a matrix with \<open>|c|\<close> rows and \<open>|r|\<close> columns in
  which \<open>get (0, k) = r[k]\<close> for every \<open>k < cols\<close> and \<open>get (k, 0) = c[k]\<close> for
  every \<open>k < rows\<close>; more generally \<open>get (i, j)\<close> is \<open>c[i - j]\<close> on and below the
  main diagonal and \<open>r[j - i]\<close> above it. The one exception is \<open>|r| + |c| = 2 ^ 64\<close>,
  two arrays that fill the address space, where the allocation of the store is
  refused. The nine values of the matrix built from the row \<open>[1, 2, 3]\<close> and the
  column \<open>[1, 4, 5]\<close> follow.
\<close>

theorem row_column_round_trip:
  assumes "row \<noteq> []" "column \<noteq> []" "row ! 0 = column ! 0"
    "length row + length column - 1 < 2 ^ 64"
  shows "(length row + length column = 2 ^ 64 \<and>
          toeplitz_matrix_row_column row column = Inl bad_alloc) \<or>
         (\<exists>m. toeplitz_matrix_row_column row column = Inr m \<and>
           size1 m = array_size column \<and> size2 m = array_size row \<and>
           (\<forall>k. k < length row \<longrightarrow> get m 0 (of_nat k) = Inr (row ! k)) \<and>
           (\<forall>k. k < length column \<longrightarrow> get m (of_nat k) 0 = Inr (column ! k)) \<and>
           (\<forall>i j. i < length column \<and> j < length row \<longrightarrow>
              get m (of_nat i) (of_nat j) =
                Inr (if j \<le> i then column ! (i - j) else row ! (j - i))))"
proof (cases "length row + length column = 2 ^ 64")
  case True
  then show ?thesis using row_column_alloc_fails[OF True] by blast
next
  case False
  let ?m = "\<lparr>data = rev column @ drop 1 row,
             size1 = array_size column, size2 = array_size row\<rparr>"
  note g = row_column_get[OF assms(1,2,4)]
  have pr: "0 < length row" "0 < length column"
    using assms(1,2) by simp_all
  have f: "length row + length column < 2 ^ 64"
    using False assms(4) pr by linarith
  have "get ?m 0 (of_nat k) = Inr (row ! k)" if "k < length row" for k
    using g[OF pr(2) that] assms(3) by (cases "k = 0") simp_all
  moreover have "get ?m (of_nat k) 0 = Inr (column ! k)" if "k < length column" for k
    using g[OF that pr(1)] by simp
  ultimately show ?thesis
    using row_column_data[OF assms(1,2,3) f] g by simp
qed

theorem row_column_round_trip_witness:
  "\<exists>m. toeplitz_matrix_row_column [1, 2, 3] [1, 4, 5 :: int] = Inr m \<and>
      get m 0 0 = Inr 1 \<and> get m 1 0 = Inr 4 \<and> get m 2 0 = Inr 5 \<and>
      get m 0 1 = Inr 2 \<and> get m 0 2 = Inr 3 \<and> get m 1 1 = Inr 1 \<and>
      get m 2 2 = Inr 1 \<and> get m 1 2 = Inr 2 \<and> get m 2 1 = Inr 4"
proof -
  let ?r = "[1, 2, 3 :: int]" and ?c = "[1, 4, 5 :: int]"
  have h: "?r \<noteq> []" "?c \<noteq> []" "?r ! 0 = ?c ! 0" "length ?r + length ?c - 1 < 2 ^ 64"
    by simp_all
  have ne: "length ?r + length ?c \<noteq> 2 ^ 64"
    by simp
  obtain m where m: "toeplitz_matrix_row_column ?r ?c = Inr m"
    and g: "\<forall>i j. i < length ?c \<and> j < length ?r \<longrightarrow>
              get m (of_nat i) (of_nat j) =
                Inr (if j \<le> i then ?c ! (i - j) else ?r ! (j - i))"
    using row_column_round_trip[OF h] ne by blast
  have "get m 0 0 = Inr 1" using g[rule_format, of 0 0] by simp
  moreover have "get m 1 0 = Inr 4" using g[rule_format, of 1 0] by simp
  moreover have "get m 2 0 = Inr 5" using g[rule_format, of 2 0] by simp
  moreover have "get m 0 1 = Inr 2" using g[rule_format, of 0 1] by simp
  moreover have "get m 0 2 = Inr 3" using g[rule_format, of 0 2] by simp
  moreover have "get m 1 1 = Inr 1" using g[rule_format, of 1 1] by simp
  moreover have "get m 2 2 = Inr 1" using g[rule_format, of 2 2] by simp
  moreover have "get m 1 2 = Inr 2" using g[rule_format, of 1 2] by simp
  moreover have "get m 2 1 = Inr 4" using g[rule_format, of 2 1] by simp
  ultimately show ?thesis using m by blast
qed

text \<open>
  C4, on the code. Whenever the row is empty, the column is empty, or their first
  elements differ, the constructor from a row and a column produces no matrix. It
  raises \<open>external_logic\<close> (the ConstructionInvariantViolation of the spec) from one
  of the three checks of its body when exactly one sequence is empty or the first
  elements differ. When both sequences are empty the member initialiser has
  already asked for \<open>0 + 0 - 1 = 2 ^ 64 - 1\<close> elements: the constructor raises
  \<open>bad_alloc\<close> and never reaches its checks. The sequences are arrays in memory, so
  \<open>|r| + |c|\<close> is below \<open>2 ^ 64\<close>.
\<close>

theorem row_column_rejects:
  assumes "length row + length column < 2 ^ 64"
    "row = [] \<or> column = [] \<or> row ! 0 \<noteq> column ! 0"
  shows "toeplitz_matrix_row_column row column =
           Inl (if row = [] \<and> column = [] then bad_alloc else external_logic)"
proof (cases "row = [] \<and> column = []")
  case True
  then show ?thesis
    by (simp add: toeplitz_matrix_row_column_def array_new_def array_size_def)
next
  case False
  have lr: "length row < 2 ^ 64" and lc: "length column < 2 ^ 64"
    using assms(1) by linarith+
  have "0 < length row + length column"
    using False by auto
  then have served: "length row + length column - 1 < 2 ^ 64 - 1"
    using assms(1) by linarith
  obtain n where n: "length row + length column = Suc n"
    using \<open>0 < length row + length column\<close> by (cases "length row + length column") simp_all
  have "(of_nat (length row) :: size_type) + of_nat (length column) = of_nat (Suc n)"
    by (simp only: n[symmetric] of_nat_add)
  then have "array_size row + array_size column - 1 = (of_nat n :: size_type)"
    by (simp add: array_size_def)
  moreover have "unat (of_nat n :: size_type) = n"
    using served n by (simp add: unat_of_nat)
  ultimately have "unat (array_size row + array_size column - 1) < 2 ^ 64 - 1"
    using served n by simp
  then obtain d :: "'a list" where d: "array_new (array_size row + array_size column - 1) = Inr d"
    using array_new_served by blast
  show ?thesis
    using assms(2) False lr lc
    by (auto simp: toeplitz_matrix_row_column_def Let_def array_size_eq_0 d)
qed

theorem row_column_rejects_witness:
  "toeplitz_matrix_row_column [] ([] :: int list) = Inl bad_alloc \<and>
   toeplitz_matrix_row_column [1, 2] [9, 4 :: int] = Inl external_logic \<and>
   toeplitz_matrix_row_column [] [9, 4 :: int] = Inl external_logic \<and>
   toeplitz_matrix_row_column [1, 2 :: int] [] = Inl external_logic"
  using row_column_rejects[of "[]" "[] :: int list"]
    row_column_rejects[of "[1, 2]" "[9, 4 :: int]"]
    row_column_rejects[of "[]" "[9, 4 :: int]"]
    row_column_rejects[of "[1, 2 :: int]" "[]"]
  by simp

section \<open>Resize\<close>

lemma size_sum_eq_iff:
  "(a :: size_type) + b = c + d \<longleftrightarrow>
   (unat a + unat b) mod 2 ^ 64 = (unat c + unat d) mod 2 ^ 64"
proof -
  have "a + b = c + d \<longleftrightarrow> unat (a + b) = unat (c + d)"
    by (simp add: word_unat_eq_iff)
  then show ?thesis by (simp add: unat_word_ariths)
qed

text \<open>
  C5, as the code has it. \<open>resize (newRows, newCols, preserve = true)\<close> compares
  \<open>newRows + newCols\<close> with \<open>rows + cols\<close> in \<open>size_type\<close>, that is modulo \<open>2 ^ 64\<close>.
  When the two sums differ modulo \<open>2 ^ 64\<close> it raises \<open>external_logic\<close> (the
  DimensionMismatch of the spec) and the object is as it was before the call:
  rows, cols and the store, hence every element. When they agree modulo \<open>2 ^ 64\<close>
  it returns normally, the dimensions are the new ones and the store is
  unchanged, so every element of the resized matrix is read from the old diagonal
  values at the offset of the new dimensions.
\<close>

theorem resize_preserve_all_or_nothing:
  "((unat s1 + unat s2) mod 2 ^ 64 \<noteq> (unat (size1 m) + unat (size2 m)) mod 2 ^ 64 \<longrightarrow>
      resize m s1 s2 True = (Some external_logic, m)) \<and>
   ((unat s1 + unat s2) mod 2 ^ 64 = (unat (size1 m) + unat (size2 m)) mod 2 ^ 64 \<longrightarrow>
      (\<exists>m'. resize m s1 s2 True = (None, m') \<and>
         size1 m' = s1 \<and> size2 m' = s2 \<and> data m' = data m \<and>
         (\<forall>i j. i < s1 \<and> j < s2 \<longrightarrow> get m' i j = array_get (data m) (offset s1 i j))))"
  using size_sum_eq_iff[of s1 s2 "size1 m" "size2 m"]
  by (simp add: resize_def get_def)

theorem resize_preserve_all_or_nothing_witness:
  "resize (toeplitz_matrix_data 2 3 [1, 2, 3, 4 :: int]) 3 3 True =
     (Some external_logic, toeplitz_matrix_data 2 3 [1, 2, 3, 4]) \<and>
   (\<exists>m'. resize (toeplitz_matrix_data 2 3 [1, 2, 3, 4 :: int]) 3 2 True = (None, m') \<and>
      size1 m' = 3 \<and> size2 m' = 2 \<and> data m' = [1, 2, 3, 4])"
  using resize_preserve_all_or_nothing[of 3 3 "toeplitz_matrix_data 2 3 [1, 2, 3, 4 :: int]"]
    resize_preserve_all_or_nothing[of 3 2 "toeplitz_matrix_data 2 3 [1, 2, 3, 4 :: int]"]
  by (auto simp: toeplitz_matrix_data_def)

text \<open>
  The claim C5 as the spec states it, with the sums read as numbers, fails: for a
  2 by 3 matrix \<open>resize (2 ^ 64 - 1, 6, true)\<close> changes the number of diagonals from
  4 to \<open>2 ^ 64 + 4\<close>, and it returns normally with the new dimensions, because
  \<open>2 ^ 64 - 1 + 6\<close> is 5 modulo \<open>2 ^ 64\<close>.
\<close>

theorem resize_preserve_all_or_nothing_counterexample:
  "unat (18446744073709551615 :: size_type) + unat (6 :: size_type) \<noteq>
     unat (2 :: size_type) + unat (3 :: size_type) \<and>
   resize (toeplitz_matrix_data 2 3 [1, 2, 3, 4 :: int]) 18446744073709551615 6 True =
     (None, \<lparr>data = [1, 2, 3, 4], size1 = 18446744073709551615, size2 = 6\<rparr>)"
  by (simp add: resize_def toeplitz_matrix_data_def)

section \<open>Where the invariant of the data model holds\<close>



lemma request_refused_iff: "(s1 :: size_type) + s2 - 1 = - 1 \<longleftrightarrow> s1 + s2 = 0"
  by simp














lemma assign_this: "assign h a b a = h b"
  by (cases "h a"; cases "h b") (auto simp: assign_def Let_def)

lemma swap_this: "swap h a b a = h b"
  by (cases "h a"; cases "h b")
     (auto simp: swap_def swap_size1_def swap_size2_def swap_data_def Let_def)

lemma swap_other: "swap h a b b = h a"
  by (cases "h a"; cases "h b")
     (auto simp: swap_def swap_size1_def swap_size2_def swap_data_def Let_def)




section \<open>Assignment and swap\<close>

lemma assign_other: "c \<noteq> a \<Longrightarrow> assign h a b c = h c"
  by (simp add: assign_def Let_def)

lemma insert_element_at_other: "c \<noteq> p \<Longrightarrow> snd (insert_element_at h p i j v) c = h c"
  by (simp add: insert_element_at_def split: prod.splits)

text \<open>
  C7, for \<open>operator =\<close>. After \<open>a = b\<close> the object \<open>a\<close> has the rows, the cols and
  the store of \<open>b\<close>, hence the same elements; the store is a copy: when \<open>a\<close> and \<open>b\<close>
  are different objects, \<open>b\<close> is untouched by the assignment and by any element
  assignment to \<open>a\<close> afterwards. (The copy constructor of the source initialises
  \<open>size2_\<close> from \<open>m.size_2\<close>, which is not a member of the class, so it has no
  behaviour to model.)
\<close>

theorem assign_copies_by_value:
  "assign h a b a = h b \<and>
   size1 (assign h a b a) = size1 (h b) \<and> size2 (assign h a b a) = size2 (h b) \<and>
   (\<forall>i j. get_at (assign h a b) a i j = get_at h b i j) \<and>
   (a \<noteq> b \<longrightarrow>
      assign h a b b = h b \<and>
      (\<forall>i j v. snd (insert_element_at (assign h a b) a i j v) b = h b) \<and>
      (\<forall>i j v i' j'.
         get_at (snd (insert_element_at (assign h a b) a i j v)) b i' j' = get_at h b i' j'))"
  by (simp add: assign_this assign_other insert_element_at_other get_at_def)

theorem assign_copies_by_value_witness:
  "assign (\<lambda>p. if p = 0 then toeplitz_matrix_data 1 1 [7 :: int]
               else toeplitz_matrix_data 2 2 [1, 2, 3]) 0 1 0 =
     toeplitz_matrix_data 2 2 [1, 2, 3] \<and>
   get_at (snd (insert_element_at
       (assign (\<lambda>p. if p = 0 then toeplitz_matrix_data 1 1 [7 :: int]
                  else toeplitz_matrix_data 2 2 [1, 2, 3]) 0 1) 0 0 0 9)) 1 0 0 = Inr 2"
proof -
  let ?h = "\<lambda>p :: nat. if p = 0 then toeplitz_matrix_data 1 1 [7 :: int]
               else toeplitz_matrix_data 2 2 [1, 2, 3]"
  note t = assign_copies_by_value[of ?h 0 1]
  have g: "get_at ?h 1 0 0 = Inr 2"
    by (simp add: get_at_def get_def array_get_def offset_eq toeplitz_matrix_data_def)
  have "assign ?h 0 1 0 = toeplitz_matrix_data 2 2 [1, 2, 3]"
    using t by simp
  moreover have "get_at (snd (insert_element_at (assign ?h 0 1) 0 0 0 9)) 1 0 0 = Inr 2"
    using t g by simp
  ultimately show ?thesis by blast
qed

text \<open>
  C8. \<open>swap (a, b)\<close> exchanges the two objects: afterwards \<open>a\<close> is what \<open>b\<close> was
  (rows, cols, store, hence every element) and \<open>b\<close> is what \<open>a\<close> was; \<open>swap (a, a)\<close>
  changes nothing.
\<close>

theorem swap_exchanges_state:
  "swap h a b a = h b \<and> swap h a b b = h a \<and>
   size1 (swap h a b a) = size1 (h b) \<and> size2 (swap h a b a) = size2 (h b) \<and>
   size1 (swap h a b b) = size1 (h a) \<and> size2 (swap h a b b) = size2 (h a) \<and>
   get_at (swap h a b) a i j = get_at h b i j \<and>
   get_at (swap h a b) b i j = get_at h a i j \<and>
   swap h a a = h"
  by (simp add: swap_this swap_other get_at_def) (simp add: swap_def)

section \<open>The cursors\<close>

lemma unat_succ: "unat (a :: size_type) + 1 < 2 ^ 64 \<Longrightarrow> unat (a + 1) = unat a + 1"
  by (subst unat_add_lem[THEN iffD1]) simp_all

lemma word_add_of_nat_neq:
  assumes "0 < n" "n < 2 ^ 64"
  shows "(a :: size_type) \<noteq> a + of_nat n"
proof -
  have "(of_nat n :: size_type) \<noteq> 0"
    using assms by (simp add: of_nat_neq_0)
  then show ?thesis by simp
qed

lemma range1_steps:
  "unat a + n < 2 ^ 64 \<Longrightarrow>
   range1 \<lparr>container = p, index1 = a, index2 = j\<rparr>
          \<lparr>container = p, index1 = a + of_nat n, index2 = j\<rparr> =
     Inr (map (\<lambda>k. \<lparr>container = p, index1 = a + of_nat k, index2 = j\<rparr>) [0..<n])"
proof (induction n arbitrary: a)
  case 0
  show ?case by (subst range1.simps) (simp add: eq1_def)
next
  case (Suc n)
  have ne: "a \<noteq> a + of_nat (Suc n)"
    using Suc.prems by (intro word_add_of_nat_neq) simp_all
  have u: "unat (a + 1) + n < 2 ^ 64"
    using Suc.prems by (simp add: unat_succ)
  have e: "a + of_nat (Suc n) = a + 1 + of_nat n" by simp
  have s: "incr1 \<lparr>container = p, index1 = a, index2 = j\<rparr> =
           \<lparr>container = p, index1 = a + 1, index2 = j\<rparr>"
    by (simp add: incr1_def)
  have m: "map (\<lambda>k. \<lparr>container = p, index1 = a + of_nat k, index2 = j\<rparr>) [0..<Suc n] =
           \<lparr>container = p, index1 = a, index2 = j\<rparr> #
           map (\<lambda>k. \<lparr>container = p, index1 = a + 1 + of_nat k, index2 = j\<rparr>) [0..<n]"
    by (simp only: map_upt_Suc) (simp add: add.assoc)
  have q: "eq1 \<lparr>container = p, index1 = a, index2 = j\<rparr>
               \<lparr>container = p, index1 = a + 1 + of_nat n, index2 = j\<rparr> = Inr False"
    using ne by (simp add: eq1_def)
  show ?case
    unfolding e m
    by (subst range1.simps) (simp only: q s Suc.IH[OF u] sum.case if_False)
qed

lemma range2_steps:
  "unat a + n < 2 ^ 64 \<Longrightarrow>
   range2 \<lparr>container = p, index1 = i, index2 = a\<rparr>
          \<lparr>container = p, index1 = i, index2 = a + of_nat n\<rparr> =
     Inr (map (\<lambda>k. \<lparr>container = p, index1 = i, index2 = a + of_nat k\<rparr>) [0..<n])"
proof (induction n arbitrary: a)
  case 0
  show ?case by (subst range2.simps) (simp add: eq2_def)
next
  case (Suc n)
  have ne: "a \<noteq> a + of_nat (Suc n)"
    using Suc.prems by (intro word_add_of_nat_neq) simp_all
  have u: "unat (a + 1) + n < 2 ^ 64"
    using Suc.prems by (simp add: unat_succ)
  have e: "a + of_nat (Suc n) = a + 1 + of_nat n" by simp
  have s: "incr2 \<lparr>container = p, index1 = i, index2 = a\<rparr> =
           \<lparr>container = p, index1 = i, index2 = a + 1\<rparr>"
    by (simp add: incr2_def)
  have m: "map (\<lambda>k. \<lparr>container = p, index1 = i, index2 = a + of_nat k\<rparr>) [0..<Suc n] =
           \<lparr>container = p, index1 = i, index2 = a\<rparr> #
           map (\<lambda>k. \<lparr>container = p, index1 = i, index2 = a + 1 + of_nat k\<rparr>) [0..<n]"
    by (simp only: map_upt_Suc) (simp add: add.assoc)
  have q: "eq2 \<lparr>container = p, index1 = i, index2 = a\<rparr>
               \<lparr>container = p, index1 = i, index2 = a + 1 + of_nat n\<rparr> = Inr False"
    using ne by (simp add: eq2_def)
  show ?case
    unfolding e m
    by (subst range2.simps) (simp only: q s Suc.IH[OF u] sum.case if_False)
qed

lemma range1_from_0:
  "range1 \<lparr>container = p, index1 = 0, index2 = j\<rparr>
          \<lparr>container = p, index1 = n, index2 = j\<rparr> =
     Inr (map (\<lambda>k. \<lparr>container = p, index1 = of_nat k, index2 = j\<rparr>) [0..<unat n])"
proof -
  have "unat (0 :: size_type) + unat n < 2 ^ 64"
    using unsigned_less[of n, where ?'a = nat] by simp
  from range1_steps[OF this, of p j] show ?thesis by simp
qed

lemma range2_from_0:
  "range2 \<lparr>container = p, index1 = i, index2 = 0\<rparr>
          \<lparr>container = p, index1 = i, index2 = n\<rparr> =
     Inr (map (\<lambda>k. \<lparr>container = p, index1 = i, index2 = of_nat k\<rparr>) [0..<unat n])"
proof -
  have "unat (0 :: size_type) + unat n < 2 ^ 64"
    using unsigned_less[of n, where ?'a = nat] by simp
  from range2_steps[OF this, of p i] show ?thesis by simp
qed

text \<open>
  C9. \<open>begin1 ()\<close> and \<open>end1 ()\<close> delimit exactly \<open>rows\<close> positions, with the index
  \<open>i\<close> running through \<open>0, ..., rows - 1\<close> and the second index fixed at 0;
  dereferencing a cursor at \<open>(i, j)\<close> is \<open>get (i, j)\<close>; from a row cursor at \<open>i\<close>,
  \<open>begin ()\<close> and \<open>end ()\<close> delimit the column cursors \<open>(i, 0), ..., (i, cols - 1)\<close>;
  and the same holds with the two axes exchanged for \<open>begin2 ()\<close>, \<open>end2 ()\<close> and
  the row cursors of a column cursor.
\<close>

theorem cursor_ranges:
  "range1 (begin1 p) (end1 h p) =
     Inr (map (\<lambda>k. \<lparr>container = p, index1 = of_nat k, index2 = 0\<rparr>)
            [0..<unat (size1 (h p))]) \<and>
   range2 (begin2 p) (end2 h p) =
     Inr (map (\<lambda>k. \<lparr>container = p, index1 = 0, index2 = of_nat k\<rparr>)
            [0..<unat (size2 (h p))]) \<and>
   deref h \<lparr>container = p, index1 = i, index2 = j\<rparr> = get (h p) i j \<and>
   range2 (begin_of1 it) (end_of1 h it) =
     Inr (map (\<lambda>k. \<lparr>container = container it, index1 = index1 it, index2 = of_nat k\<rparr>)
            [0..<unat (size2 (h (container it)))]) \<and>
   range1 (begin_of2 it) (end_of2 h it) =
     Inr (map (\<lambda>k. \<lparr>container = container it, index1 = of_nat k, index2 = index2 it\<rparr>)
            [0..<unat (size1 (h (container it)))])"
  by (simp add: begin1_def end1_def begin2_def end2_def begin_of1_def end_of1_def
      begin_of2_def end_of2_def deref_def range1_from_0 range2_from_0)

theorem cursor_ranges_witness:
  "range1 (begin1 0) (end1 (\<lambda>p. toeplitz_matrix_data 2 3 [1, 2, 3, 4 :: int]) 0) =
     Inr [\<lparr>container = 0, index1 = 0, index2 = 0\<rparr>,
          \<lparr>container = 0, index1 = 1, index2 = 0\<rparr>] \<and>
   range2 (begin_of1 \<lparr>container = 0, index1 = 1, index2 = 0\<rparr>)
          (end_of1 (\<lambda>p. toeplitz_matrix_data 2 3 [1, 2, 3, 4 :: int])
             \<lparr>container = 0, index1 = 1, index2 = 0\<rparr>) =
     Inr [\<lparr>container = 0, index1 = 1, index2 = 0\<rparr>,
          \<lparr>container = 0, index1 = 1, index2 = 1\<rparr>,
          \<lparr>container = 0, index1 = 1, index2 = 2\<rparr>]"
proof -
  let ?h = "\<lambda>p :: nat. toeplitz_matrix_data 2 3 [1, 2, 3, 4 :: int]"
  have u: "[0..<(2 :: nat)] = [0, 1]" "[0..<(3 :: nat)] = [0, 1, 2]"
    by (simp_all add: upt_rec)
  have s: "size1 (?h 0) = 2" "size2 (?h 0) = 3"
    by (simp_all add: toeplitz_matrix_data_def)
  show ?thesis
    using cursor_ranges[of 0 ?h 0 0 "\<lparr>container = 0, index1 = 1, index2 = 0\<rparr>"]
    by (simp add: s u)
qed

section \<open>The length of the store in size arithmetic\<close>



end
